theory Spec2Isabelle
  imports Main "HOL-Library.AList"
begin

section \<open>Python values and built-ins used by \<open>GameConfig\<close>\<close>

text \<open>
  The embedding follows \<^verbatim>\<open>scripts/manage.py\<close>, class \<^verbatim>\<open>GameConfig\<close>. Python strings are
  character lists; the model covers ASCII text (the configuration format), and a character
  outside ASCII is an ordinary character: not whitespace, not a digit, without case.
  Python dictionaries keep insertion order, so they are association lists updated with
  \<^const>\<open>AList.update\<close>: an existing key keeps its position, a new key goes to the end.
  Exceptions are values of type \<open>error\<close>; a function that may raise returns \<open>error + 'a\<close>.
  Integers are unbounded; \<^verbatim>\<open>int\<close> of a string and \<^verbatim>\<open>str\<close> of an integer raise
  \<^verbatim>\<open>ValueError\<close> beyond 4300 decimal digits, the interpreter's default limit.

  Names follow the source. \<^verbatim>\<open>_parse_options\<close> is \<open>parse_options\<close>, its first loop \<open>tokenize\<close>
  (one iteration is \<open>lex_step\<close>) and its second loop \<open>classify_all\<close> (one iteration is
  \<open>classify\<close>); the local \<^verbatim>\<open>values\<close> is the field \<open>vals\<close>; \<^verbatim>\<open>set\<close> is \<open>set_cfg\<close>; the
  constructor is \<open>init\<close>.
\<close>

datatype error =
  IndexError
  | ValueError string
  | AttributeError
  | TypeError
  | FileNotFoundError

definition dquote :: char where
  "dquote = CHR 0x22"

definition newline :: char where
  "newline = CHR 0x0A"

definition carriage_return :: char where
  "carriage_return = CHR 0x0D"

subsection \<open>\<^verbatim>\<open>str.strip\<close>, \<^verbatim>\<open>str.lower\<close>, \<^verbatim>\<open>str.isdigit\<close>, \<^verbatim>\<open>int\<close>, \<^verbatim>\<open>str\<close>\<close>

definition is_space :: "char \<Rightarrow> bool" where
  "is_space c =
     (c \<in> set [CHR 0x09, CHR 0x0A, CHR 0x0B, CHR 0x0C, CHR 0x0D, CHR 0x1C, CHR 0x1D, CHR 0x1E, CHR 0x1F, CHR 0x20])"

definition py_strip :: "string \<Rightarrow> string" where
  "py_strip s = rev (dropWhile is_space (rev (dropWhile is_space s)))"

definition strip_chars :: "char \<Rightarrow> string \<Rightarrow> string" where
  \<comment> \<open>\<^verbatim>\<open>s.strip(c)\<close> for a one-character argument\<close>
  "strip_chars c s = rev (dropWhile (\<lambda>x. x = c) (rev (dropWhile (\<lambda>x. x = c) s)))"

definition to_lower :: "char \<Rightarrow> char" where
  "to_lower c =
     (case map_of (zip ''ABCDEFGHIJKLMNOPQRSTUVWXYZ'' ''abcdefghijklmnopqrstuvwxyz'') c of
        Some d \<Rightarrow> d
      | None \<Rightarrow> c)"

definition py_lower :: "string \<Rightarrow> string" where
  "py_lower s = map to_lower s"

definition is_dec :: "char \<Rightarrow> bool" where
  "is_dec c = (c \<in> set ''0123456789'')"

definition py_isdigit :: "string \<Rightarrow> bool" where
  "py_isdigit s = (s \<noteq> [] \<and> list_all is_dec s)"

definition digit_val :: "char \<Rightarrow> int" where
  "digit_val c = of_char c - 48"

definition digits_value :: "string \<Rightarrow> int" where
  \<comment> \<open>the number a string of decimal digits denotes\<close>
  "digits_value s = foldl (\<lambda>a c. 10 * a + digit_val c) 0 s"

definition max_str_digits :: nat where
  "max_str_digits = 4300"

definition digit_limit_error :: error where
  "digit_limit_error = ValueError ''Exceeds the limit (4300 digits) for integer string conversion''"

definition py_int :: "string \<Rightarrow> error + int" where
  \<comment> \<open>\<^verbatim>\<open>int(s)\<close> on a string of decimal digits, the only strings it is called on\<close>
  "py_int s = (if max_str_digits < length s then Inl digit_limit_error else Inr (digits_value s))"

definition digit_char :: "int \<Rightarrow> char" where
  "digit_char d = ''0123456789'' ! nat d"

function digits_of :: "int \<Rightarrow> string" where
  "digits_of n = (if n < 10 then [digit_char n] else digits_of (n div 10) @ [digit_char (n mod 10)])"
  by pat_completeness auto
termination
  by (relation "measure nat") auto

definition str_int :: "int \<Rightarrow> error + string" where
  \<comment> \<open>\<^verbatim>\<open>str(i)\<close>\<close>
  "str_int i =
     (if max_str_digits < length (digits_of \<bar>i\<bar>) then Inl digit_limit_error
      else Inr (if i < 0 then CHR ''-'' # digits_of (- i) else digits_of i))"

fun py_split :: "char \<Rightarrow> string \<Rightarrow> string list" where
  "py_split sep [] = [[]]"
| "py_split sep (c # cs) =
     (if c = sep then [] # py_split sep cs
      else (let r = py_split sep cs in (c # hd r) # tl r))"

fun py_join :: "string \<Rightarrow> string list \<Rightarrow> string" where
  "py_join sep [] = []"
| "py_join sep [x] = x"
| "py_join sep (x # y # ys) = x @ sep @ py_join sep (y # ys)"

definition startswith :: "string \<Rightarrow> string \<Rightarrow> bool" where
  "startswith s p = (take (length p) s = p)"

subsection \<open>Floating point: \<^verbatim>\<open>float(s)\<close> and \<^verbatim>\<open>str(f)\<close>\<close>

text \<open>
  A binary64 value is \<open>Finite neg m e\<close> for \<open>\<plusminus> m * 2 ^ e\<close>, with \<open>2 ^ 52 \<le> m < 2 ^ 53\<close> and
  \<open>-1074 \<le> e \<le> 971\<close> for a normal number, \<open>e = -1074\<close> and \<open>m < 2 ^ 52\<close> for a subnormal
  one or a zero; an infinity; or a NaN. \<^verbatim>\<open>float\<close> reads the decimal syntax of the language
  reference (sign, digits with single underscores between them, point, exponent, and the
  words inf, infinity, nan) and rounds to nearest, ties to even. \<^verbatim>\<open>str\<close> writes the
  shortest decimal that reads back as the same value, in positional notation when the
  decimal point falls in \<open>-4 < decpt \<le> 16\<close> and in exponent notation otherwise.
\<close>

datatype pyfloat = Finite bool int int | Inf bool | NaN

fun digitpart :: "string \<Rightarrow> string \<times> string" where
  "digitpart [] = ([], [])"
| "digitpart (c # cs) =
     (if \<not> is_dec c then ([], c # cs)
      else (case cs of
              u # d # ds \<Rightarrow>
                (if u = CHR ''_'' \<and> is_dec d then apfst ((#) c) (digitpart (d # ds))
                 else apfst ((#) c) (digitpart cs))
            | _ \<Rightarrow> apfst ((#) c) (digitpart cs)))"

definition take_sign :: "string \<Rightarrow> bool \<times> string" where
  "take_sign s =
     (case s of
        [] \<Rightarrow> (False, [])
      | c # cs \<Rightarrow> if c = CHR ''-'' then (True, cs) else if c = CHR ''+'' then (False, cs) else (False, s))"

definition exponent_part :: "string \<Rightarrow> int option" where
  "exponent_part s =
     (case s of
        [] \<Rightarrow> Some 0
      | c # cs \<Rightarrow>
          if c = CHR ''e'' \<or> c = CHR ''E'' then
            (let (neg, r) = take_sign cs; (ds, rest) = digitpart r in
             if ds \<noteq> [] \<and> rest = [] then Some (if neg then - digits_value ds else digits_value ds)
             else None)
          else None)"

definition floatnumber :: "string \<Rightarrow> (int \<times> int) option" where
  \<comment> \<open>the decimal mantissa and exponent of \<^verbatim>\<open>number [exponent]\<close>\<close>
  "floatnumber s =
     (let (ip, r1) = digitpart s in
      case r1 of
        [] \<Rightarrow> if ip = [] then None else Some (digits_value ip, 0)
      | c # r2 \<Rightarrow>
          if c = CHR ''.'' then
            (let (fp, r3) = digitpart r2 in
             if ip = [] \<and> fp = [] then None
             else map_option (\<lambda>x. (digits_value (ip @ fp), x - int (length fp))) (exponent_part r3))
          else if ip = [] then None
          else map_option (\<lambda>x. (digits_value ip, x)) (exponent_part r1))"

function bit_length :: "int \<Rightarrow> int" where
  "bit_length n = (if n \<le> 0 then 0 else 1 + bit_length (n div 2))"
  by pat_completeness auto
termination
  by (relation "measure nat") auto

definition ge_pow :: "int \<Rightarrow> int \<Rightarrow> int \<Rightarrow> int \<Rightarrow> bool" where
  \<comment> \<open>\<open>b ^ k \<le> n / d\<close>\<close>
  "ge_pow b n d k = (if 0 \<le> k then d * b ^ nat k \<le> n else d \<le> n * b ^ nat (- k))"

definition floor_log2 :: "int \<Rightarrow> int \<Rightarrow> int" where
  "floor_log2 n d =
     (let g = bit_length n - bit_length d in if ge_pow 2 n d g then g else g - 1)"

definition round_half_even :: "int \<Rightarrow> int \<Rightarrow> int" where
  "round_half_even n d =
     (let q = n div d; r = n mod d in
      if 2 * r < d then q else if d < 2 * r then q + 1 else if even q then q else q + 1)"

definition pack_binary64 :: "bool \<Rightarrow> int \<Rightarrow> int \<Rightarrow> pyfloat" where
  \<comment> \<open>a mantissa rounded up to \<open>2 ^ 53\<close> moves to the next exponent; past the largest one is infinity\<close>
  "pack_binary64 neg m e =
     (if m = 2 ^ 53 then (if 971 < e + 1 then Inf neg else Finite neg (2 ^ 52) (e + 1))
      else if 971 < e then Inf neg
      else Finite neg m e)"

definition round_at :: "bool \<Rightarrow> int \<Rightarrow> int \<Rightarrow> int \<Rightarrow> pyfloat" where
  "round_at neg n d e =
     pack_binary64 neg
       (if 0 \<le> e then round_half_even n (d * 2 ^ nat e) else round_half_even (n * 2 ^ nat (- e)) d) e"

definition to_binary64 :: "bool \<Rightarrow> int \<Rightarrow> int \<Rightarrow> pyfloat" where
  \<comment> \<open>the binary64 value nearest to \<open>\<plusminus> n / d\<close>\<close>
  "to_binary64 neg n d =
     (if n = 0 then Finite neg 0 (- 1074)
      else round_at neg n d (max (floor_log2 n d - 52) (- 1074)))"

definition scaled10 :: "int \<Rightarrow> int \<Rightarrow> int \<times> int" where
  \<comment> \<open>\<open>c * 10 ^ t\<close> as a fraction\<close>
  "scaled10 c t = (if 0 \<le> t then (c * 10 ^ nat t, 1) else (c, 10 ^ nat (- t)))"

definition py_float :: "string \<Rightarrow> pyfloat option" where
  \<comment> \<open>\<^verbatim>\<open>float(s)\<close>; \<open>None\<close> is \<^verbatim>\<open>ValueError\<close>\<close>
  "py_float s0 =
     (let (neg, r) = take_sign (py_strip s0); l = py_lower r in
      if l = ''inf'' \<or> l = ''infinity'' then Some (Inf neg)
      else if l = ''nan'' then Some NaN
      else map_option (\<lambda>(m, x). case scaled10 m x of (n, d) \<Rightarrow> to_binary64 neg n d) (floatnumber r))"

definition floor_log10 :: "int \<Rightarrow> int \<Rightarrow> int" where
  "floor_log10 n d =
     (let g = int (length (digits_of n)) - int (length (digits_of d)) in
      if ge_pow 10 n d g then g else g - 1)"

definition reads_back :: "int \<Rightarrow> int \<Rightarrow> int \<Rightarrow> int \<Rightarrow> bool" where
  \<comment> \<open>the decimal \<open>c * 10 ^ t\<close> reads as \<open>m * 2 ^ e\<close>\<close>
  "reads_back m e c t = (case scaled10 c t of (a, b) \<Rightarrow> to_binary64 False a b = Finite False m e)"

definition choose_digits :: "int \<Rightarrow> int \<Rightarrow> int \<Rightarrow> int \<Rightarrow> int \<Rightarrow> int \<Rightarrow> (int \<times> int) option" where
  \<comment> \<open>of the two decimals \<open>lo\<close> and \<open>lo + 1\<close> (times \<open>10 ^ t\<close>) around \<open>(lo + r / d) * 10 ^ t\<close>:
      one that reads back, the nearer one if both do\<close>
  "choose_digits m e t d lo r =
     (if r = 0 then Some (lo, t)
      else if reads_back m e lo t then
        (if reads_back m e (lo + 1) t then
           Some (if 2 * r < d then lo else if d < 2 * r then lo + 1
                 else if even lo then lo else lo + 1, t)
         else Some (lo, t))
      else if reads_back m e (lo + 1) t then Some (lo + 1, t)
      else None)"

definition divide_digits :: "int \<Rightarrow> int \<Rightarrow> int \<Rightarrow> int \<Rightarrow> int \<Rightarrow> (int \<times> int) option" where
  "divide_digits m e t n d = choose_digits m e t d (n div d) (n mod d)"

definition try_digits :: "int \<Rightarrow> int \<Rightarrow> int \<Rightarrow> int \<Rightarrow> int \<Rightarrow> (int \<times> int) option" where
  \<comment> \<open>a decimal with last digit at \<open>10 ^ t\<close> that reads back as \<open>m * 2 ^ e = n / d\<close>\<close>
  "try_digits m e n d t =
     (if 0 \<le> t then divide_digits m e t n (d * 10 ^ nat t)
      else divide_digits m e t (n * 10 ^ nat (- t)) d)"

fun search_digits :: "int \<Rightarrow> int \<Rightarrow> int \<Rightarrow> int \<Rightarrow> int \<Rightarrow> nat \<Rightarrow> int \<times> int" where
  \<comment> \<open>the first of the next \<open>k\<close> lengths, shortest first, that has such a decimal\<close>
  "search_digits m e n d t 0 = (n, 0)"
| "search_digits m e n d t (Suc k) =
     (if try_digits m e n d t = None then search_digits m e n d (t - 1) k
      else the (try_digits m e n d t))"

definition shortest_decimal :: "int \<Rightarrow> int \<Rightarrow> int \<times> int" where
  \<comment> \<open>one to seventeen digits; seventeen always read back\<close>
  "shortest_decimal m e =
     (if 0 \<le> e then search_digits m e (m * 2 ^ nat e) 1 (floor_log10 (m * 2 ^ nat e) 1) 17
      else search_digits m e m (2 ^ nat (- e)) (floor_log10 m (2 ^ nat (- e))) 17)"

definition strip_zeros :: "string \<Rightarrow> string" where
  "strip_zeros ds = rev (dropWhile (\<lambda>x. x = CHR ''0'') (rev ds))"

definition exp_str :: "int \<Rightarrow> string" where
  "exp_str x =
     (if x < 0 then ''-'' else ''+'') @
     (let ds = digits_of \<bar>x\<bar> in if length ds < 2 then CHR ''0'' # ds else ds)"

definition format_repr :: "string \<Rightarrow> int \<Rightarrow> string" where
  "format_repr ds decpt =
     (if decpt \<le> - 4 \<or> 16 < decpt then
        take 1 ds @ (if length ds \<le> 1 then [] else CHR ''.'' # drop 1 ds) @ ''e'' @ exp_str (decpt - 1)
      else if decpt \<le> 0 then ''0.'' @ replicate (nat (- decpt)) CHR ''0'' @ ds
      else if int (length ds) \<le> decpt then
        ds @ replicate (nat decpt - length ds) CHR ''0'' @ ''.0''
      else take (nat decpt) ds @ ''.'' @ drop (nat decpt) ds)"

definition format_digits :: "string \<Rightarrow> int \<Rightarrow> string" where
  "format_digits ds t = format_repr (strip_zeros ds) (int (length ds) + t)"

definition float_repr :: "pyfloat \<Rightarrow> string" where
  \<comment> \<open>\<^verbatim>\<open>str(f)\<close>, which is \<^verbatim>\<open>repr(f)\<close>\<close>
  "float_repr f =
     (case f of
        NaN \<Rightarrow> ''nan''
      | Inf neg \<Rightarrow> (if neg then ''-inf'' else ''inf'')
      | Finite neg m e \<Rightarrow>
          (if neg then ''-'' else []) @
          (if m = 0 then ''0.0''
           else (case shortest_decimal m e of (c, t) \<Rightarrow> format_digits (digits_of c) t)))"

subsection \<open>Dynamically typed values\<close>

text \<open>
  \<^verbatim>\<open>self.config[key]\<close> is a two-element list \<^verbatim>\<open>[tag, value]\<close>: the tag is a string and the
  value any Python object. The values that occur are \<^verbatim>\<open>None\<close>, booleans, integers, floats,
  strings and lists of strings.
\<close>

datatype pyval = VNone | VBool bool | VInt int | VFloat pyfloat | VStr string | VList "string list"

type_synonym entry = "string \<times> pyval"

type_synonym store = "(string option \<times> entry) list"

definition hex_digit :: "nat \<Rightarrow> char" where
  "hex_digit n = ''0123456789abcdef'' ! n"

definition repr_char :: "char \<Rightarrow> char \<Rightarrow> string" where
  "repr_char q c =
     (if c = q \<or> c = CHR 0x5C then [CHR 0x5C, c]
      else if c = CHR 0x09 then [CHR 0x5C, CHR ''t'']
      else if c = CHR 0x0A then [CHR 0x5C, CHR ''n'']
      else if c = CHR 0x0D then [CHR 0x5C, CHR ''r'']
      else if (of_char c :: nat) < 32 \<or> c = CHR 0x7F then
        [CHR 0x5C, CHR ''x'', hex_digit (of_char c div 16), hex_digit (of_char c mod 16)]
      else [c])"

definition str_repr :: "string \<Rightarrow> string" where
  \<comment> \<open>\<^verbatim>\<open>repr(s)\<close>\<close>
  "str_repr s =
     (let q = (if CHR 0x27 \<in> set s \<and> dquote \<notin> set s then dquote else CHR 0x27)
      in [q] @ concat (map (repr_char q) s) @ [q])"

definition py_str :: "pyval \<Rightarrow> error + string" where
  \<comment> \<open>what \<^verbatim>\<open>'%s' % v\<close> writes\<close>
  "py_str v =
     (case v of
        VNone \<Rightarrow> Inr ''None''
      | VBool b \<Rightarrow> Inr (if b then ''True'' else ''False'')
      | VInt i \<Rightarrow> str_int i
      | VFloat f \<Rightarrow> Inr (float_repr f)
      | VStr s \<Rightarrow> Inr s
      | VList xs \<Rightarrow> Inr (''['' @ py_join '', '' (map str_repr xs) @ '']''))"

definition py_truth :: "pyval \<Rightarrow> bool" where
  "py_truth v =
     (case v of
        VNone \<Rightarrow> False
      | VBool b \<Rightarrow> b
      | VInt i \<Rightarrow> i \<noteq> 0
      | VFloat f \<Rightarrow> (case f of Finite _ m _ \<Rightarrow> m \<noteq> 0 | _ \<Rightarrow> True)
      | VStr s \<Rightarrow> s \<noteq> []
      | VList xs \<Rightarrow> xs \<noteq> [])"

definition join_value :: "pyval \<Rightarrow> error + string" where
  \<comment> \<open>\<^verbatim>\<open>','.join(v)\<close>: a string is joined character by character\<close>
  "join_value v =
     (case v of
        VList xs \<Rightarrow> Inr (py_join '','' xs)
      | VStr s \<Rightarrow> Inr (py_join '','' (map (\<lambda>c. [c]) s))
      | _ \<Rightarrow> Inl TypeError)"

definition replace_quote :: "pyval \<Rightarrow> error + pyval" where
  \<comment> \<open>\<^verbatim>\<open>val.replace('"', '')\<close>\<close>
  "replace_quote v =
     (case v of
        VStr s \<Rightarrow> Inr (VStr (filter (\<lambda>c. c \<noteq> dquote) s))
      | _ \<Rightarrow> Inl AttributeError)"

section \<open>\<open>GameConfig\<close>\<close>

definition header :: string where
  "header = ''/Script/Pal.PalGameWorldSettings''"

definition option_key :: string where
  "option_key = ''OptionSettings''"

subsection \<open>\<^verbatim>\<open>_parse_options\<close>: the tokenizer loop\<close>

record lexer =
  buffer :: string
  vals :: "(string option \<times> string) list"
  in_group :: bool
  group :: "char option"
  key :: "string option"

definition lex_init :: lexer where
  "lex_init = \<lparr>buffer = [], vals = [], in_group = False, group = None, key = None\<rparr>"

definition lex_step :: "lexer \<Rightarrow> char \<Rightarrow> lexer" where
  "lex_step s character =
     (if character = CHR ''='' \<and> \<not> in_group s then
        s\<lparr>key := Some (py_strip (buffer s)), buffer := []\<rparr>
      else if character = CHR '','' \<and> \<not> in_group s then
        s\<lparr>vals := AList.update (key s) (py_strip (buffer s)) (vals s), buffer := []\<rparr>
      else if character = dquote \<and> \<not> in_group s then
        s\<lparr>in_group := True, group := Some character, buffer := buffer s @ [character]\<rparr>
      else if character = CHR ''('' \<and> \<not> in_group s then
        s\<lparr>in_group := True, group := Some CHR '')'', buffer := buffer s @ [character]\<rparr>
      else if group s \<noteq> None \<and> Some character = group s then
        s\<lparr>in_group := False, buffer := buffer s @ [character]\<rparr>
      else s\<lparr>buffer := buffer s @ [character]\<rparr>)"

definition lex_finish :: "lexer \<Rightarrow> (string option \<times> string) list" where
  \<comment> \<open>"Don't forget the last value."\<close>
  "lex_finish s =
     (case key s of
        None \<Rightarrow> vals s
      | Some k \<Rightarrow> AList.update (Some k) (py_strip (buffer s)) (vals s))"

definition tokenize :: "string \<Rightarrow> (string option \<times> string) list" where
  "tokenize options = lex_finish (foldl lex_step lex_init options)"

subsection \<open>\<^verbatim>\<open>_parse_options\<close>: the type of each value\<close>

text \<open>
  The second loop fills \<^verbatim>\<open>self.config\<close> entry by entry. An exception in it leaves the
  loop, \<^verbatim>\<open>load\<close> and the constructor, the only caller, so that no object and no store
  remain: the result is the error alone.
\<close>

definition classify :: "string \<Rightarrow> error + entry" where
  "classify val =
     (if py_lower val = ''true'' then Inr (''bool'', VBool True)
      else if py_lower val = ''false'' then Inr (''bool'', VBool False)
      else if py_isdigit val then
        (case py_int val of Inl e \<Rightarrow> Inl e | Inr i \<Rightarrow> Inr (''int'', VInt i))
      else
        (case val of
           [] \<Rightarrow> Inl IndexError
         | c # _ \<Rightarrow>
             if c = dquote then Inr (''string'', VStr (strip_chars dquote val))
             else if c = CHR ''('' then Inr (''group'', VList (py_split CHR '','' (butlast (tl val))))
             else if CHR ''.'' \<in> set val then
               (case py_float val of
                  None \<Rightarrow> Inl (ValueError ''could not convert string to float'')
                | Some f \<Rightarrow> Inr (''float'', VFloat f))
             else Inr (''literal'', VStr val)))"

fun classify_all :: "(string option \<times> string) list \<Rightarrow> store \<Rightarrow> error + store" where
  "classify_all [] config = Inr config"
| "classify_all ((k, val) # rest) config =
     (case classify val of
        Inl e \<Rightarrow> Inl e
      | Inr tv \<Rightarrow> classify_all rest (AList.update k tv config))"

definition parse_options :: "string \<Rightarrow> error + store" where
  "parse_options options = classify_all (tokenize options) []"

subsection \<open>\<^verbatim>\<open>save\<close>, \<^verbatim>\<open>get\<close>, \<^verbatim>\<open>set\<close>, \<^verbatim>\<open>load\<close>\<close>

text \<open>
  The object and the two files it reads and writes form one record. A file that does
  not exist is \<open>None\<close>. Writing the live file is taken to succeed.
\<close>

record world =
  config :: store
  configured :: bool
  live_file :: "string option"
  default_file :: "string option"

definition key_str :: "string option \<Rightarrow> string" where
  \<comment> \<open>\<^verbatim>\<open>'%s' % key\<close>; the key \<^verbatim>\<open>None\<close> is written \<^verbatim>\<open>None\<close>\<close>
  "key_str k = (case k of None \<Rightarrow> ''None'' | Some s \<Rightarrow> s)"

definition render_entry :: "string option \<times> entry \<Rightarrow> error + string" where
  "render_entry kv =
     (case kv of
        (k, t, v) \<Rightarrow>
          if t = ''bool'' then Inr (key_str k @ ''='' @ (if py_truth v then ''True'' else ''False''))
          else if t = ''int'' then map_sum id (\<lambda>s. key_str k @ ''='' @ s) (py_str v)
          else if t = ''string'' then
            map_sum id (\<lambda>s. key_str k @ ''='' @ [dquote] @ s @ [dquote]) (py_str v)
          else if t = ''float'' then map_sum id (\<lambda>s. key_str k @ ''='' @ s) (py_str v)
          else if t = ''group'' then
            map_sum id (\<lambda>s. key_str k @ ''=('' @ s @ '')'') (join_value v)
          else map_sum id (\<lambda>s. key_str k @ ''='' @ s) (py_str v))"

fun save_options :: "store \<Rightarrow> string list \<Rightarrow> error + string list" where
  "save_options [] options = Inr options"
| "save_options (kv # rest) options =
     (case render_entry kv of
        Inl e \<Rightarrow> Inl e
      | Inr tok \<Rightarrow> save_options rest (options @ [tok]))"

definition header_line :: string where
  \<comment> \<open>\<^verbatim>\<open>'[%s]\n' % self.header\<close>\<close>
  "header_line = ''['' @ header @ '']'' @ [newline]"

definition options_line :: "string list \<Rightarrow> string" where
  \<comment> \<open>\<^verbatim>\<open>'%s=(%s)\n' % (self.option_key, ','.join(options))\<close>\<close>
  "options_line options = option_key @ ''=('' @ py_join '','' options @ '')'' @ [newline]"

definition file_text :: "string list \<Rightarrow> string" where
  "file_text options = header_line @ options_line options"

definition save :: "world \<Rightarrow> (error + unit) \<times> world" where
  "save w =
     (case save_options (config w) [] of
        Inl e \<Rightarrow> (Inl e, w)
      | Inr options \<Rightarrow> (Inr (), w\<lparr>live_file := Some (file_text options)\<rparr>))"

definition get :: "world \<Rightarrow> string \<Rightarrow> pyval \<Rightarrow> pyval" where
  "get w k dflt = (case map_of (config w) (Some k) of Some (t, v) \<Rightarrow> v | None \<Rightarrow> dflt)"

definition var_types :: "string list" where
  "var_types = [''bool'', ''int'', ''string'', ''float'', ''group'', ''literal'']"

definition set_cfg :: "world \<Rightarrow> string \<Rightarrow> string \<Rightarrow> pyval \<Rightarrow> (error + unit) \<times> world" where
  "set_cfg w k var_type val =
     (if var_type \<notin> set var_types then (Inl (ValueError ''Invalid variable type''), w)
      else
        (case (if var_type = ''string'' then replace_quote val else Inr val) of
           Inl e \<Rightarrow> (Inl e, w)
         | Inr val' \<Rightarrow> save (w\<lparr>config := AList.update (Some k) (var_type, val') (config w)\<rparr>)))"

fun universal_newlines :: "string \<Rightarrow> string" where
  "universal_newlines [] = []"
| "universal_newlines [c] = [if c = carriage_return then newline else c]"
| "universal_newlines (c # d # ds) =
     (if c = carriage_return then
        (if d = newline then newline # universal_newlines ds
         else newline # universal_newlines (d # ds))
      else c # universal_newlines (d # ds))"

fun split_lines :: "string \<Rightarrow> string list" where
  "split_lines [] = []"
| "split_lines (c # cs) =
     (if c = newline then [c] # split_lines cs
      else (case split_lines cs of [] \<Rightarrow> [[c]] | l # ls \<Rightarrow> (c # l) # ls))"

definition readlines :: "string \<Rightarrow> string list" where
  \<comment> \<open>\<^verbatim>\<open>f.readlines()\<close> of a file opened in text mode\<close>
  "readlines content = split_lines (universal_newlines content)"

definition options_of_line :: "string \<Rightarrow> string" where
  \<comment> \<open>\<^verbatim>\<open>line.strip()[len(self.option_key) + 2:-1]\<close>\<close>
  "options_of_line line = butlast (drop (length option_key + 2) (py_strip line))"

fun load_lines :: "bool \<Rightarrow> string list \<Rightarrow> world \<Rightarrow> error + world" where
  "load_lines live [] w = Inr w"
| "load_lines live (line # rest) w =
     (if startswith line option_key then
        (case parse_options (options_of_line line) of
           Inl e \<Rightarrow> Inl e
         | Inr c \<Rightarrow> load_lines live rest (w\<lparr>config := c, configured := (live \<or> configured w)\<rparr>))
      else load_lines live rest w)"

definition load :: "world \<Rightarrow> error + world" where
  "load w =
     (case (case live_file w of
              None \<Rightarrow> Inr w
            | Some content \<Rightarrow> load_lines True (readlines content) w) of
        Inl e \<Rightarrow> Inl e
      | Inr w1 \<Rightarrow>
          if \<not> configured w1 then
            (case default_file w1 of
               None \<Rightarrow> Inl FileNotFoundError
             | Some content \<Rightarrow> load_lines False (readlines content) w1)
          else Inr w1)"

definition init :: "string option \<Rightarrow> string option \<Rightarrow> error + world" where
  \<comment> \<open>\<^verbatim>\<open>GameConfig()\<close> with the two files as they are on disk\<close>
  "init live dflt =
     load \<lparr>config = [], configured = False, live_file = live, default_file = dflt\<rparr>"


section \<open>Stores that survive a save and a reload\<close>

text \<open>
  A clean store is one in which every entry is written as one token that the tokenizer
  reads back whole and the classifier gives the same tag and value:
  \<^item> no two entries have the same key, and every key is a string (not \<^verbatim>\<open>None\<close>) without
    any of the characters \<^verbatim>\<open>= , " (\<close> and without whitespace at either end;
  \<^item> the tag bool goes with a boolean;
  \<^item> the tag int goes with an integer that is not negative and has at most 4300 digits;
  \<^item> the tag float goes with a float \<open>f\<close> such that \<^verbatim>\<open>str(f)\<close> has a decimal point and
    \<^verbatim>\<open>float(str(f))\<close> is \<open>f\<close>;
  \<^item> the tag string goes with a string without a double quote;
  \<^item> the tag literal goes with a string that is not empty, has none of \<^verbatim>\<open>= , " ( .\<close>, has
    no whitespace at either end, is not \<^verbatim>\<open>true\<close> or \<^verbatim>\<open>false\<close> in any case and is not made
    of digits only;
  \<^item> the tag group goes with a list of strings that is not empty, none with a comma or a
    closing parenthesis;
  \<^item> no other tag and no other value occurs.
\<close>

definition plain :: "string \<Rightarrow> bool" where
  "plain s = list_all (\<lambda>c. c \<noteq> CHR ''='' \<and> c \<noteq> CHR '','' \<and> c \<noteq> dquote \<and> c \<noteq> CHR ''('') s"

definition clean_key :: "string option \<Rightarrow> bool" where
  "clean_key k = (case k of None \<Rightarrow> False | Some s \<Rightarrow> plain s \<and> py_strip s = s)"















definition rstrip :: "string \<Rightarrow> string" where
  \<comment> \<open>the text without its trailing whitespace\<close>
  "rstrip s = rev (dropWhile is_space (rev s))"

definition decimal_value :: "string \<Rightarrow> int" where
  \<comment> \<open>the integer a string of decimal digits denotes, by positional weight\<close>
  "decimal_value s = (\<Sum>i < length s. digit_val (s ! i) * 10 ^ (length s - 1 - i))"

definition example_world :: world where
  \<comment> \<open>a configured object with two settings and the live file that holds them\<close>
  \<open>example_world =
     \<lparr>config = [(Some ''AdminPassword'', ''string'', VStr ''secret''),
                (Some ''RCONPort'', ''int'', VInt 25575)],
      configured = True,
      live_file = Some (file_text [''AdminPassword="secret"'', ''RCONPort=25575'']),
      default_file = None\<rparr>\<close>

section \<open>Properties of the built-ins\<close>

declare digits_of.simps [simp del] bit_length.simps [simp del]

lemma dropWhile_id: "xs = [] \<or> \<not> P (hd xs) \<Longrightarrow> dropWhile P xs = xs"
  by (cases xs) auto



lemma to_lower_t: "to_lower c = CHR ''t'' \<Longrightarrow> c = CHR ''t'' \<or> c = CHR ''T''"
  by (simp add: to_lower_def split: if_splits)

lemma to_lower_f: "to_lower c = CHR ''f'' \<Longrightarrow> c = CHR ''f'' \<or> c = CHR ''F''"
  by (simp add: to_lower_def split: if_splits)

lemma not_bool_word:
  "c \<noteq> CHR ''t'' \<Longrightarrow> c \<noteq> CHR ''T'' \<Longrightarrow> c \<noteq> CHR ''f'' \<Longrightarrow> c \<noteq> CHR ''F'' \<Longrightarrow>
   py_lower (c # s) \<noteq> ''true'' \<and> py_lower (c # s) \<noteq> ''false''"
  using to_lower_t [of c] to_lower_f [of c] by (auto simp: py_lower_def)





lemma digits_value_snoc: "digits_value (xs @ [c]) = 10 * digits_value xs + digit_val c"
  by (simp add: digits_value_def)




lemma is_dec_not_letter:
  "is_dec c \<Longrightarrow> c \<noteq> CHR ''t'' \<and> c \<noteq> CHR ''T'' \<and> c \<noteq> CHR ''f'' \<and> c \<noteq> CHR ''F''"
  by (auto simp: is_dec_def)

lemma is_dec_lower: "list_all is_dec s \<Longrightarrow> py_lower s \<noteq> ''true'' \<and> py_lower s \<noteq> ''false''"
proof (cases s)
  case Nil
  then show ?thesis by (simp add: py_lower_def)
next
  case (Cons c cs)
  assume "list_all is_dec s"
  with Cons have "is_dec c" by simp
  from is_dec_not_letter [OF this] show ?thesis
    unfolding Cons by (intro not_bool_word) auto
qed






lemma dropWhile_snoc: "\<not> P c \<Longrightarrow> dropWhile P (xs @ [c]) = dropWhile P xs @ [c]"
  by (induction xs) auto

lemma py_strip_head: "\<not> is_space c \<Longrightarrow> py_strip (c # t) = c # rstrip t"
  by (simp add: py_strip_def rstrip_def dropWhile_snoc)

lemma set_rstrip: "set (rstrip t) \<subseteq> set t"
  using set_dropWhileD [of _ is_space "rev t"] by (auto simp: rstrip_def)

lemma strip_chars_head: "c \<notin> set r \<Longrightarrow> strip_chars c (c # r) = r"
proof -
  assume a: "c \<notin> set r"
  have 1: "dropWhile (\<lambda>x. x = c) r = r"
    using a by (intro dropWhile_id) (cases r, auto)
  have 2: "dropWhile (\<lambda>x. x = c) (rev r) = rev r"
    using a by (intro dropWhile_id) (cases "rev r", auto)
  show ?thesis by (simp add: strip_chars_def 1 2)
qed

lemma decimal_value_snoc: "decimal_value (s @ [c]) = 10 * decimal_value s + digit_val c"
proof -
  have "(\<Sum>i<length s. digit_val ((s @ [c]) ! i) * 10 ^ (length s - i)) =
        (\<Sum>i<length s. 10 * (digit_val (s ! i) * 10 ^ (length s - 1 - i)))"
  proof (rule sum.cong [OF refl])
    fix i assume "i \<in> {..<length s}"
    then have i: "i < length s" by simp
    then have "length s - i = Suc (length s - 1 - i)" by simp
    with i show "digit_val ((s @ [c]) ! i) * 10 ^ (length s - i) =
        10 * (digit_val (s ! i) * 10 ^ (length s - 1 - i))"
      by (simp add: nth_append)
  qed
  then show ?thesis
    by (simp add: decimal_value_def sum_distrib_left)
qed

lemma digits_value_decimal: "digits_value s = decimal_value s"
proof (induction s rule: rev_induct)
  case Nil
  show ?case by (simp add: digits_value_def decimal_value_def)
next
  case (snoc c s)
  then show ?case by (simp add: digits_value_snoc decimal_value_snoc)
qed

























section \<open>The tokenizer, one step and one token at a time\<close>

lemma lex_plain:
  "plain xs \<Longrightarrow>
   foldl lex_step \<lparr>buffer = b, vals = v, in_group = False, group = g, key = k\<rparr> xs =
     \<lparr>buffer = b @ xs, vals = v, in_group = False, group = g, key = k\<rparr>"
  by (induction xs arbitrary: b) (auto simp: plain_def lex_step_def)

lemma lex_inside:
  "q \<notin> set xs \<Longrightarrow>
   foldl lex_step \<lparr>buffer = b, vals = v, in_group = True, group = Some q, key = k\<rparr> xs =
     \<lparr>buffer = b @ xs, vals = v, in_group = True, group = Some q, key = k\<rparr>"
  by (induction xs arbitrary: b) (auto simp: lex_step_def)

lemma lex_open_quote:
  "lex_step \<lparr>buffer = b, vals = v, in_group = False, group = g, key = k\<rparr> dquote =
     \<lparr>buffer = b @ [dquote], vals = v, in_group = True, group = Some dquote, key = k\<rparr>"
  by (simp add: lex_step_def dquote_def)

lemma lex_open_paren:
  "lex_step \<lparr>buffer = b, vals = v, in_group = False, group = g, key = k\<rparr> CHR ''('' =
     \<lparr>buffer = b @ ''('', vals = v, in_group = True, group = Some CHR '')'', key = k\<rparr>"
  by (simp add: lex_step_def dquote_def)




lemma lex_equals:
  "lex_step \<lparr>buffer = b, vals = v, in_group = False, group = g, key = k\<rparr> CHR ''='' =
     \<lparr>buffer = [], vals = v, in_group = False, group = g, key = Some (py_strip b)\<rparr>"
  by (simp add: lex_step_def)


lemma lex_key:
  assumes "clean_key (Some k)"
  shows "foldl lex_step lex_init (k @ ''='') =
           \<lparr>buffer = [], vals = [], in_group = False, group = None, key = Some k\<rparr>"
  using assms by (simp add: clean_key_def lex_init_def lex_plain lex_equals)

section \<open>The classifier on the text of one value\<close>








lemma dot_lower: "CHR ''.'' \<in> set s \<Longrightarrow> CHR ''.'' \<in> set (py_lower s)"
proof -
  assume a: "CHR ''.'' \<in> set s"
  have "to_lower CHR ''.'' = CHR ''.''" by (simp add: to_lower_def)
  with a show ?thesis unfolding py_lower_def set_map by (metis imageI)
qed

lemma dot_not_bool:
  "CHR ''.'' \<in> set s \<Longrightarrow> py_lower s \<noteq> ''true'' \<and> py_lower s \<noteq> ''false''"
proof -
  assume "CHR ''.'' \<in> set s"
  then have d: "CHR ''.'' \<in> set (py_lower s)" by (rule dot_lower)
  have "CHR ''.'' \<notin> set ''true''" "CHR ''.'' \<notin> set ''false''" by simp_all
  with d show ?thesis by metis
qed

lemma dot_not_digits: "CHR ''.'' \<in> set s \<Longrightarrow> \<not> py_isdigit s"
proof -
  have "\<not> is_dec CHR ''.''" by (simp add: is_dec_def)
  then show "CHR ''.'' \<in> set s \<Longrightarrow> \<not> py_isdigit s"
    unfolding py_isdigit_def list_all_iff by blast
qed

lemma classify_float:
  assumes "CHR ''.'' \<in> set (c # r)" "c \<noteq> dquote" "c \<noteq> CHR ''(''"
  shows "classify (c # r) =
     (case py_float (c # r) of
        None \<Rightarrow> Inl (ValueError ''could not convert string to float'')
      | Some f \<Rightarrow> Inr (''float'', VFloat f))"
proof -
  note dot_not_bool [OF assms(1)] dot_not_digits [OF assms(1)]
  then show ?thesis
    unfolding classify_def using assms by (simp only: if_False if_True list.case simp_thms)
qed







lemma classify_open_quote:
  "dquote \<notin> set r \<Longrightarrow> classify (dquote # r) = Inr (''string'', VStr r)"
  using not_bool_word [of dquote r]
  by (simp add: classify_def py_isdigit_def is_dec_def strip_chars_head) (simp add: dquote_def)

lemma classify_open_paren:
  "classify (CHR ''('' # r) = Inr (''group'', VList (py_split CHR '','' (butlast r)))"
  using not_bool_word [of "CHR ''(''" r]
  by (simp add: classify_def py_isdigit_def is_dec_def dquote_def)

lemma classify_empty: "classify [] = Inl IndexError"
  by (simp add: classify_def py_lower_def py_isdigit_def)








lemma classify_all_empty_value:
  "(k, []) \<in> set vs \<Longrightarrow> \<exists>e. classify_all vs cfg = Inl e"
proof (induction vs arbitrary: cfg)
  case Nil
  then show ?case by simp
next
  case (Cons kv vs)
  obtain k' val where kv: "kv = (k', val)" by (cases kv)
  show ?case
  proof (cases "classify val")
    case (Inl e)
    with kv show ?thesis by simp
  next
    case (Inr tv)
    have "val \<noteq> []" using Inr by (auto simp: classify_empty)
    with Cons.prems kv have "(k, []) \<in> set vs" by auto
    from Cons.IH [OF this] Inr kv show ?thesis by simp
  qed
qed

lemma classify_all_first_failure:
  "\<forall>kv \<in> set pre. \<exists>tv. classify (snd kv) = Inr tv \<Longrightarrow> classify val = Inl e \<Longrightarrow>
   classify_all (pre @ (k, val) # post) cfg = Inl e"
proof (induction pre arbitrary: cfg)
  case Nil
  then show ?case by simp
next
  case (Cons kv pre)
  obtain k' v' where kv: "kv = (k', v')" by (cases kv)
  with Cons.prems(1) obtain tv where "classify v' = Inr tv" by auto
  with Cons kv show ?case by simp
qed









section \<open>Saving a store and reading it back\<close>



lemma save_options_tokens:
  "save_options cfg acc = Inr opts \<Longrightarrow>
   \<exists>toks. opts = acc @ toks \<and> list_all2 (\<lambda>kv tok. render_entry kv = Inr tok) cfg toks"
proof (induction cfg arbitrary: acc)
  case Nil
  then show ?case by simp
next
  case (Cons kv cfg)
  then obtain tok where r: "render_entry kv = Inr tok"
    and s: "save_options cfg (acc @ [tok]) = Inr opts"
    by (auto split: sum.splits)
  from Cons.IH [OF s] obtain toks where "opts = (acc @ [tok]) @ toks"
    "list_all2 (\<lambda>kv tok. render_entry kv = Inr tok) cfg toks" by blast
  with r show ?case by (intro exI [of _ "tok # toks"]) simp
qed
























section \<open>The claims\<close>

subsection \<open>Round trip of parse and save\<close>




text \<open>
  The condition on floats is needed. \<^verbatim>\<open>str\<close> writes a float of magnitude \<open>10 ^ 16\<close> or more,
  or below \<open>10 ^ -4\<close>, in exponent notation, without a decimal point when one digit is enough,
  and the classifier takes a value for a float only when it has a point: \<^verbatim>\<open>K=1.0e16\<close> is
  saved as \<^verbatim>\<open>K=1e+16\<close> and \<^verbatim>\<open>DropRate=0.000010\<close> as \<^verbatim>\<open>DropRate=1e-05\<close>, and both are read back
  as literals.
\<close>

lemma reparse_exponent_float:
  \<open>parse_options ''K=1.0e16'' =
     Inr [(Some ''K'', ''float'', VFloat (Finite False 5000000000000000 1))] \<and>
   save_options [(Some ''K'', ''float'', VFloat (Finite False 5000000000000000 1))] [] =
     Inr [''K=1e+16''] \<and>
   parse_options (options_of_line (options_line [''K=1e+16''])) =
     Inr [(Some ''K'', ''literal'', VStr ''1e+16'')]\<close>
  by code_simp

lemma reparse_small_float:
  \<open>map_sum id (\<lambda>cfg. save_options cfg []) (parse_options ''DropRate=0.000010'') =
     Inr (Inr [''DropRate=1e-05'']) \<and>
   parse_options (options_of_line (options_line [''DropRate=1e-05''])) =
     Inr [(Some ''DropRate'', ''literal'', VStr ''1e-05'')]\<close>
  by code_simp

text \<open>
  So are the other conditions: a pair committed before any key is saved under the name
  \<^verbatim>\<open>None\<close>, and a closing parenthesis inside a group element ends the group when it is read
  again.
\<close>

lemma reparse_missing_key:
  \<open>parse_options ''x,A=1'' =
     Inr [(None, ''literal'', VStr ''x''), (Some ''A'', ''int'', VInt 1)] \<and>
   save_options [(None, ''literal'', VStr ''x''), (Some ''A'', ''int'', VInt 1)] [] =
     Inr [''None=x'', ''A=1''] \<and>
   parse_options (options_of_line (options_line [''None=x'', ''A=1''])) =
     Inr [(Some ''None'', ''literal'', VStr ''x''), (Some ''A'', ''int'', VInt 1)]\<close>
  by code_simp

subsection \<open>A delimiter that is never closed\<close>

text \<open>
  Claim C2, as amended. The parser has no error for an unclosed delimiter: \<^verbatim>\<open>K="unterminated\<close>
  parses to the string \<^verbatim>\<open>unterminated\<close>. What holds: an open quote or parenthesis runs to
  the end of the input, and the pair is committed like any other. For a key \<open>k\<close> free of
  \<^verbatim>\<open>= , " (\<close> and a text \<open>t\<close> without a double quote, \<open>k="t\<close> parses to the single
  entry \<open>k\<close>, a string, \<open>t\<close> without its trailing whitespace; for a text \<open>t\<close> without a closing
  parenthesis, \<open>k=(t\<close> parses to the single entry \<open>k\<close>, a group, the comma-separated parts of
  \<open>t\<close> without its trailing whitespace and its last character.
\<close>

theorem unterminated_group_committed:
  assumes "clean_key (Some k)"
  shows "(dquote \<notin> set t \<longrightarrow>
            parse_options (k @ ''='' @ dquote # t) = Inr [(Some k, ''string'', VStr (rstrip t))]) \<and>
         (CHR '')'' \<notin> set t \<longrightarrow>
            parse_options (k @ ''=('' @ t) =
              Inr [(Some k, ''group'', VList (py_split CHR '','' (butlast (rstrip t))))])"
proof (intro conjI impI)
  assume q: "dquote \<notin> set t"
  have "foldl lex_step lex_init ((k @ ''='') @ dquote # t) =
          \<lparr>buffer = dquote # t, vals = [], in_group = True, group = Some dquote, key = Some k\<rparr>"
    by (subst foldl_append, subst lex_key [OF assms])
       (simp add: lex_open_quote lex_inside [OF q])
  then have "tokenize (k @ ''='' @ dquote # t) = [(Some k, dquote # rstrip t)]"
    by (simp add: tokenize_def lex_finish_def py_strip_head is_space_def dquote_def)
  moreover have "dquote \<notin> set (rstrip t)" using q set_rstrip [of t] by auto
  ultimately show "parse_options (k @ ''='' @ dquote # t) = Inr [(Some k, ''string'', VStr (rstrip t))]"
    by (simp add: parse_options_def classify_open_quote)
next
  assume q: "CHR '')'' \<notin> set t"
  have "foldl lex_step lex_init ((k @ ''='') @ CHR ''('' # t) =
          \<lparr>buffer = CHR ''('' # t, vals = [], in_group = True, group = Some CHR '')'', key = Some k\<rparr>"
    by (subst foldl_append, subst lex_key [OF assms])
       (simp add: lex_open_paren lex_inside [OF q])
  then have "tokenize (k @ ''=('' @ t) = [(Some k, CHR ''('' # rstrip t)]"
    by (simp add: tokenize_def lex_finish_def py_strip_head is_space_def)
  then show "parse_options (k @ ''=('' @ t) =
      Inr [(Some k, ''group'', VList (py_split CHR '','' (butlast (rstrip t))))]"
    by (simp add: parse_options_def classify_open_paren)
qed

theorem unterminated_group_committed_witness:
  \<open>clean_key (Some ''K'') \<and> dquote \<notin> set ''unterminated  '' \<and> CHR '')'' \<notin> set ''a,b'' \<and>
   parse_options (''K'' @ ''='' @ dquote # ''unterminated  '') =
     Inr [(Some ''K'', ''string'', VStr ''unterminated'')] \<and>
   parse_options (''K'' @ ''=('' @ ''a,b'') = Inr [(Some ''K'', ''group'', VList [''a'', []])]\<close>
proof -
  have c: "clean_key (Some ''K'')" by code_simp
  have q: "dquote \<notin> set ''unterminated  ''" by code_simp
  have p: "CHR '')'' \<notin> set ''a,b''" by code_simp
  have r: "rstrip ''unterminated  '' = ''unterminated''"
    "py_split CHR '','' (butlast (rstrip ''a,b'')) = [''a'', []]"
    by code_simp+
  from unterminated_group_committed [OF c, of "''unterminated  ''"] q
  have 1: "parse_options (''K'' @ ''='' @ dquote # ''unterminated  '') =
     Inr [(Some ''K'', ''string'', VStr ''unterminated'')]"
    unfolding r by blast
  from unterminated_group_committed [OF c, of "''a,b''"] p
  have 2: "parse_options (''K'' @ ''=('' @ ''a,b'') = Inr [(Some ''K'', ''group'', VList [''a'', []])]"
    unfolding r by blast
  from c q p 1 2 show ?thesis by blast
qed

theorem unterminated_quote_counterexample:
  \<open>parse_options ''K="unterminated'' = Inr [(Some ''K'', ''string'', VStr ''unterminated'')]\<close>
  by code_simp

subsection \<open>Setting a value and loading the file again\<close>




text \<open>
  The conditions on the integer and on the group are needed: a negative integer is read back
  as a literal, the string of its text, and an empty group as the group of one empty string.
\<close>

lemma set_negative_int_reloads_as_literal:
  \<open>set_cfg example_world ''RCONPort'' ''int'' (VInt (- 5)) =
     (Inr (), example_world
        \<lparr>config := [(Some ''AdminPassword'', ''string'', VStr ''secret''),
                    (Some ''RCONPort'', ''int'', VInt (- 5))],
         live_file := Some (file_text [''AdminPassword="secret"'', ''RCONPort=-5''])\<rparr>) \<and>
   map_sum id (\<lambda>w. map_of (config w) (Some ''RCONPort''))
     (init (Some (file_text [''AdminPassword="secret"'', ''RCONPort=-5''])) None) =
     Inr (Some (''literal'', VStr ''-5''))\<close>
  by code_simp

lemma set_empty_group_reloads_as_empty_string:
  \<open>set_cfg example_world ''CrossplayPlatforms'' ''group'' (VList []) =
     (Inr (), example_world
        \<lparr>config := [(Some ''AdminPassword'', ''string'', VStr ''secret''),
                    (Some ''RCONPort'', ''int'', VInt 25575),
                    (Some ''CrossplayPlatforms'', ''group'', VList [])],
         live_file := Some (file_text [''AdminPassword="secret"'', ''RCONPort=25575'',
                                       ''CrossplayPlatforms=()''])\<rparr>) \<and>
   map_sum id (\<lambda>w. get w ''CrossplayPlatforms'' VNone)
     (init (Some (file_text [''AdminPassword="secret"'', ''RCONPort=25575'',
                             ''CrossplayPlatforms=()''])) None) =
     Inr (VList [[]])\<close>
  by code_simp

subsection \<open>A type tag that is not recognized\<close>

text \<open>
  Claim C4. For every key and value, \<^verbatim>\<open>set\<close> with a type tag outside bool, int, string,
  float, group, literal raises \<^verbatim>\<open>ValueError('Invalid variable type')\<close>, the error the
  specification names InvalidType, and the store, the configured flag and both files are
  exactly as before the call.
\<close>

theorem set_invalid_type:
  "t \<notin> set var_types \<Longrightarrow> set_cfg w k t v = (Inl (ValueError ''Invalid variable type''), w)"
  by (simp add: set_cfg_def)

theorem set_invalid_type_witness:
  "''double'' \<notin> set var_types \<and>
   set_cfg example_world ''RCONPort'' ''double'' (VInt 1) =
     (Inl (ValueError ''Invalid variable type''), example_world)"
proof -
  have h: "''double'' \<notin> set var_types" by code_simp
  from set_invalid_type [OF h] h show ?thesis by blast
qed

subsection \<open>The worked example of the specification\<close>

text \<open>
  Claim C5. Parsing \<^verbatim>\<open>A=True,B=42,C="hi, there",D=(1,2,3)\<close> yields exactly four entries,
  in this order: \<open>A\<close> is the boolean true, \<open>B\<close> the integer 42, \<open>C\<close> the string
  \<^verbatim>\<open>hi, there\<close> and \<open>D\<close> the group of \<open>1\<close>, \<open>2\<close>, \<open>3\<close>. The comma inside the quotes does not
  split the entry \<open>C\<close>.
\<close>

theorem parse_options_example:
  \<open>parse_options ''A=True,B=42,C="hi, there",D=(1,2,3)'' =
     Inr [(Some ''A'', ''bool'', VBool True),
          (Some ''B'', ''int'', VInt 42),
          (Some ''C'', ''string'', VStr ''hi, there''),
          (Some ''D'', ''group'', VList [''1'', ''2'', ''3''])]\<close>
  by code_simp

subsection \<open>The order of the keys\<close>



subsection \<open>Digits and the minus sign\<close>

text \<open>
  Claim C7, as amended. A value with a leading minus sign is not always a literal:
  \<^verbatim>\<open>-1.5\<close> contains a point and is classified as the float \<open>-1.5\<close>. What holds: a non-empty
  string of at most 4300 decimal digits is classified as an integer, the one its digits
  denote by position (\<^const>\<open>decimal_value\<close>); a value with a leading minus sign is never an
  integer: without a point it is a literal, kept as it is, and with a point that \<^verbatim>\<open>float\<close>
  accepts it is the float that \<^verbatim>\<open>float\<close> returns.
\<close>

theorem classify_digits_and_minus:
  "(s \<noteq> [] \<and> list_all is_dec s \<and> length s \<le> max_str_digits \<longrightarrow>
      classify s = Inr (''int'', VInt (decimal_value s))) \<and>
   (CHR ''.'' \<notin> set r \<longrightarrow> classify (CHR ''-'' # r) = Inr (''literal'', VStr (CHR ''-'' # r))) \<and>
   (CHR ''.'' \<in> set r \<and> py_float (CHR ''-'' # r) = Some f \<longrightarrow>
      classify (CHR ''-'' # r) = Inr (''float'', VFloat f))"
proof (intro conjI impI)
  assume "s \<noteq> [] \<and> list_all is_dec s \<and> length s \<le> max_str_digits"
  then show "classify s = Inr (''int'', VInt (decimal_value s))"
    using is_dec_lower [of s]
    by (simp add: classify_def py_isdigit_def py_int_def digits_value_decimal)
next
  have nb: "py_lower (CHR ''-'' # r) \<noteq> ''true'' \<and> py_lower (CHR ''-'' # r) \<noteq> ''false''"
    by (rule not_bool_word) simp_all
  {
    assume "CHR ''.'' \<notin> set r"
    then show "classify (CHR ''-'' # r) = Inr (''literal'', VStr (CHR ''-'' # r))"
      using nb by (simp add: classify_def py_isdigit_def is_dec_def dquote_def)
  next
    assume "CHR ''.'' \<in> set r \<and> py_float (CHR ''-'' # r) = Some f"
    then show "classify (CHR ''-'' # r) = Inr (''float'', VFloat f)"
      using classify_float [of "CHR ''-''" r] by (simp add: dquote_def)
  }
qed

theorem classify_digits_and_minus_witness:
  "''042'' \<noteq> [] \<and> list_all is_dec ''042'' \<and> length ''042'' \<le> max_str_digits \<and>
   classify ''042'' = Inr (''int'', VInt 42) \<and>
   CHR ''.'' \<notin> set ''5'' \<and> classify ''-5'' = Inr (''literal'', VStr ''-5'') \<and>
   CHR ''.'' \<in> set ''.5e1'' \<and> py_float ''-.5e1'' = Some (Finite True 5629499534213120 (- 50)) \<and>
   classify ''-.5e1'' = Inr (''float'', VFloat (Finite True 5629499534213120 (- 50)))"
proof -
  have h1: "''042'' \<noteq> [] \<and> list_all is_dec ''042'' \<and> length ''042'' \<le> max_str_digits"
    by code_simp
  have h2: "CHR ''.'' \<notin> set ''5''" by code_simp
  have h3: "CHR ''.'' \<in> set ''.5e1'' \<and> py_float ''-.5e1'' = Some (Finite True 5629499534213120 (- 50))"
    by code_simp
  have v: "decimal_value ''042'' = 42"
    by (simp add: digits_value_decimal [symmetric] digits_value_def digit_val_def)
  from classify_digits_and_minus [of "''042''" "''5''"] h1 h2 v
  have 1: "classify ''042'' = Inr (''int'', VInt 42)" "classify ''-5'' = Inr (''literal'', VStr ''-5'')"
    by auto
  from classify_digits_and_minus [of "''042''" "''.5e1''"] h3
  have 2: "classify ''-.5e1'' = Inr (''float'', VFloat (Finite True 5629499534213120 (- 50)))"
    by blast
  from h1 h2 h3 1 2 show ?thesis by blast
qed

theorem minus_float_counterexample:
  "classify ''-1.5'' = Inr (''float'', VFloat (Finite True 6755399441055744 (- 52)))"
  by code_simp

text \<open>
  The bound on the number of digits is needed: \<^verbatim>\<open>int\<close> refuses a string of more than 4300
  digits with \<^verbatim>\<open>ValueError\<close>, which nothing in \<^verbatim>\<open>_parse_options\<close> catches.
\<close>

lemma classify_too_many_digits:
  "classify (replicate 4301 CHR ''1'') = Inl digit_limit_error"
proof -
  let ?s = "replicate 4301 CHR ''1''"
  have d: "list_all is_dec ?s" by (simp add: list_all_iff is_dec_def)
  have n: "?s \<noteq> []" by simp
  from is_dec_lower [OF d] d n show ?thesis
    by (simp add: classify_def py_isdigit_def py_int_def max_str_digits_def)
qed

subsection \<open>A value with a point that is not a number\<close>

text \<open>
  Claim C8 fails on the code. The raw value \<^verbatim>\<open>1.2.3.4\<close> is not a boolean word, not all
  digits, starts with neither a quote nor a parenthesis and contains a point, yet its
  classification does not succeed: \<^verbatim>\<open>float\<close> raises \<^verbatim>\<open>ValueError\<close>, and so does parsing
  the options \<^verbatim>\<open>PublicIP=1.2.3.4\<close>.
\<close>

theorem dotted_value_not_float:
  "py_lower ''1.2.3.4'' \<noteq> ''true'' \<and> py_lower ''1.2.3.4'' \<noteq> ''false'' \<and> \<not> py_isdigit ''1.2.3.4'' \<and>
   CHR ''.'' \<in> set ''1.2.3.4'' \<and>
   classify ''1.2.3.4'' = Inl (ValueError ''could not convert string to float'') \<and>
   parse_options ''PublicIP=1.2.3.4'' = Inl (ValueError ''could not convert string to float'')"
  by code_simp

subsection \<open>An empty value\<close>

text \<open>
  Claim C9, as amended. A pair committed with an empty value can be overwritten by a later
  pair of the same key, the last one winning: in \<^verbatim>\<open>K=,K=1\<close> the tokenizer commits \<open>K\<close> with
  the empty value at the first comma, and parsing succeeds with \<open>K\<close> the integer 1. What
  holds: for every input whose pairs, when the tokenizer is done, include one with the empty
  value, parsing raises an exception and produces no store. Indexing the empty value raises
  \<^verbatim>\<open>IndexError\<close>, and that is the exception raised by parsing whenever every pair before
  that one, in the order of the keys, can be classified; otherwise an earlier pair has
  raised its own exception first.
\<close>

theorem empty_value_raises:
  assumes "tokenize x = pre @ (k, []) # post"
  shows "classify [] = Inl IndexError \<and> (\<exists>e. parse_options x = Inl e) \<and>
         ((\<forall>kv \<in> set pre. \<exists>tv. classify (snd kv) = Inr tv) \<longrightarrow> parse_options x = Inl IndexError)"
proof -
  from assms have "(k, []) \<in> set (tokenize x)" by simp
  from classify_all_empty_value [OF this, of "[]"]
  have 1: "\<exists>e. parse_options x = Inl e" by (simp add: parse_options_def)
  have 2: "parse_options x = Inl IndexError"
    if "\<forall>kv \<in> set pre. \<exists>tv. classify (snd kv) = Inr tv"
    using classify_all_first_failure [OF that classify_empty, of k post "[]"]
    by (simp add: parse_options_def assms)
  from 1 2 show ?thesis by (simp add: classify_empty)
qed

theorem empty_value_raises_witness:
  "tokenize ''K=1,'' = [] @ (Some ''K'', []) # [] \<and>
   tokenize ''A=1,K='' = [(Some ''A'', ''1'')] @ (Some ''K'', []) # [] \<and>
   classify ''1'' = Inr (''int'', VInt 1) \<and>
   classify [] = Inl IndexError \<and>
   parse_options ''K=1,'' = Inl IndexError \<and> parse_options ''A=1,K='' = Inl IndexError"
proof -
  have h1: "tokenize ''K=1,'' = [] @ (Some ''K'', []) # []" by code_simp
  have h2: "tokenize ''A=1,K='' = [(Some ''A'', ''1'')] @ (Some ''K'', []) # []" by code_simp
  have c: "classify ''1'' = Inr (''int'', VInt 1)" by code_simp
  then have h3: "\<forall>kv \<in> set [(Some ''A'', ''1'')]. \<exists>tv. classify (snd kv) = Inr tv" by simp
  from empty_value_raises [OF h1]
  have 1: "classify [] = Inl IndexError" "parse_options ''K=1,'' = Inl IndexError" by simp_all
  from empty_value_raises [OF h2] h3
  have 2: "parse_options ''A=1,K='' = Inl IndexError" by blast
  from h1 h2 c 1 2 show ?thesis by blast
qed

text \<open>
  An earlier pair that cannot be classified raises first: in \<^verbatim>\<open>A=1.2.3,K=\<close> the exception
  is the \<^verbatim>\<open>ValueError\<close> of \<^verbatim>\<open>float\<close>.
\<close>

lemma empty_value_after_failure:
  "parse_options ''A=1.2.3,K='' = Inl (ValueError ''could not convert string to float'')"
  by code_simp

theorem empty_value_overwritten_counterexample:
  "vals (foldl lex_step lex_init ''K=,'') = [(Some ''K'', [])] \<and>
   parse_options ''K=,K=1'' = Inr [(Some ''K'', ''int'', VInt 1)]"
  by code_simp

subsection \<open>Double quotes in a string passed to \<^verbatim>\<open>set\<close>\<close>

text \<open>
  Claim C10. For every key \<open>k\<close> and string \<open>s\<close>, \<^verbatim>\<open>set(k, 'string', s)\<close> stores under \<open>k\<close>
  the tag string and \<open>s\<close> with every double quote removed, whether or not the save that
  follows succeeds; \<^verbatim>\<open>get\<close> returns that string, which has no double quote; and when the
  call succeeds, the live file has the token of \<open>k\<close>, \<^verbatim>\<open>=\<close> and that string between two
  double quotes.
\<close>

theorem set_string_removes_quotes:
  assumes "set_cfg w k ''string'' (VStr s) = (r, w')"
  shows "map_of (config w') (Some k) = Some (''string'', VStr (filter (\<lambda>c. c \<noteq> dquote) s)) \<and>
         get w' k d = VStr (filter (\<lambda>c. c \<noteq> dquote) s) \<and>
         dquote \<notin> set (filter (\<lambda>c. c \<noteq> dquote) s) \<and>
         (r = Inr () \<longrightarrow>
            (\<exists>opts. live_file w' = Some (file_text opts) \<and>
               k @ ''='' @ [dquote] @ filter (\<lambda>c. c \<noteq> dquote) s @ [dquote] \<in> set opts))"
proof -
  let ?s = "filter (\<lambda>c. c \<noteq> dquote) s"
  let ?cfg = "AList.update (Some k) (''string'', VStr ?s) (config w)"
  from assms have sv: "save (w\<lparr>config := ?cfg\<rparr>) = (r, w')"
    by (simp add: set_cfg_def var_types_def replace_quote_def)
  then have cfg: "config w' = ?cfg"
    by (auto simp: save_def split: sum.splits)
  have m: "map_of (config w') (Some k) = Some (''string'', VStr ?s)"
    by (simp add: cfg update_conv')
  have "r = Inr () \<longrightarrow>
            (\<exists>opts. live_file w' = Some (file_text opts) \<and>
               k @ ''='' @ [dquote] @ ?s @ [dquote] \<in> set opts)"
  proof
    assume "r = Inr ()"
    with sv obtain opts where o: "save_options ?cfg [] = Inr opts"
      and lf: "live_file w' = Some (file_text opts)"
      by (auto simp: save_def split: sum.splits)
    from save_options_tokens [OF o]
    have l: "list_all2 (\<lambda>kv tok. render_entry kv = Inr tok) ?cfg opts" by simp
    from m cfg have "(Some k, ''string'', VStr ?s) \<in> set ?cfg"
      by (auto dest: map_of_SomeD)
    then obtain i where i: "i < length ?cfg" "?cfg ! i = (Some k, ''string'', VStr ?s)"
      by (auto simp: in_set_conv_nth)
    with l have "render_entry (Some k, ''string'', VStr ?s) = Inr (opts ! i)" "i < length opts"
      by (auto dest: list_all2_nthD list_all2_lengthD)
    then have "k @ ''='' @ [dquote] @ ?s @ [dquote] \<in> set opts"
      by (auto simp: render_entry_def key_str_def py_str_def in_set_conv_nth)
    with lf show "\<exists>opts. live_file w' = Some (file_text opts) \<and>
               k @ ''='' @ [dquote] @ ?s @ [dquote] \<in> set opts" by blast
  qed
  with m show ?thesis by (simp add: get_def)
qed

theorem set_string_removes_quotes_witness:
  \<open>set_cfg example_world ''AdminPassword'' ''string'' (VStr ''a"b"'') =
     (Inr (), example_world
        \<lparr>config := [(Some ''AdminPassword'', ''string'', VStr ''ab''),
                    (Some ''RCONPort'', ''int'', VInt 25575)],
         live_file := Some (file_text [''AdminPassword="ab"'', ''RCONPort=25575''])\<rparr>) \<and>
   get (example_world
        \<lparr>config := [(Some ''AdminPassword'', ''string'', VStr ''ab''),
                    (Some ''RCONPort'', ''int'', VInt 25575)],
         live_file := Some (file_text [''AdminPassword="ab"'', ''RCONPort=25575''])\<rparr>)
       ''AdminPassword'' VNone = VStr ''ab''\<close>
proof -
  let ?w' = \<open>example_world
        \<lparr>config := [(Some ''AdminPassword'', ''string'', VStr ''ab''),
                    (Some ''RCONPort'', ''int'', VInt 25575)],
         live_file := Some (file_text [''AdminPassword="ab"'', ''RCONPort=25575''])\<rparr>\<close>
  have s: \<open>set_cfg example_world ''AdminPassword'' ''string'' (VStr ''a"b"'') = (Inr (), ?w')\<close>
    by code_simp
  have f: \<open>filter (\<lambda>c. c \<noteq> dquote) ''a"b"'' = ''ab''\<close> by code_simp
  from set_string_removes_quotes [OF s, of VNone]
  have "get ?w' ''AdminPassword'' VNone = VStr ''ab''"
    unfolding f by blast
  with s show ?thesis by blast
qed

end
